theory Spec2Isabelle
  imports Complex_Main "HOL-Library.Sublist"
begin

section \<open>The signal model and the gradient of \<^verbatim>\<open>5G.py\<close>\<close>

text \<open>
  Python floats are read as real numbers, so every statement below is one of exact
  arithmetic; rounding is not modelled.  What Python adds to the arithmetic is kept:
  a true division whose divisor is zero raises \<^verbatim>\<open>ZeroDivisionError\<close>, and
  \<^verbatim>\<open>min\<close> of an empty sequence raises \<^verbatim>\<open>ValueError\<close>.
\<close>

datatype error = ZeroDivisionError | ValueError

text \<open>\<^verbatim>\<open>Gf.Vec3f(a, b, c)\<close>, read by index: \<^verbatim>\<open>v[0]\<close>, \<^verbatim>\<open>v[1]\<close>, \<^verbatim>\<open>v[2]\<close>.\<close>

type_synonym vec3 = "real \<times> real \<times> real"

definition vx :: "vec3 \<Rightarrow> real" where
  "vx v = fst v"

definition vy :: "vec3 \<Rightarrow> real" where
  "vy v = fst (snd v)"

definition vz :: "vec3 \<Rightarrow> real" where
  "vz v = snd (snd v)"

text \<open>Python's \<^verbatim>\<open>a / b\<close> on floats.\<close>

definition truediv :: "real \<Rightarrow> real \<Rightarrow> error + real" where
  "truediv a b = (if b = 0 then Inl ZeroDivisionError else Inr (a / b))"

text \<open>Lines 119-156.\<close>

definition calculate_gradient_color :: "real \<Rightarrow> vec3" where
  "calculate_gradient_color signal_strength0 =
     (let signal_strength = max 0 (min 100 signal_strength0)
      in if signal_strength > 50
         then (let normalized = (signal_strength - 50) / 50
               in (1 - normalized, 1, 0))
         else (let normalized = signal_strength / 50
               in (1, normalized, 0)))"

text \<open>Lines 159-177. The division of line 175 has no guard in the source.\<close>

definition calculate_signal_strength :: "real \<Rightarrow> real \<Rightarrow> real \<Rightarrow> error + real" where
  "calculate_signal_strength distance0 max_distance min_distance =
     (let distance = max min_distance (min max_distance distance0)
      in case truediv (100 * (max_distance - distance)) (max_distance - min_distance) of
           Inl e \<Rightarrow> Inl e
         | Inr signal_strength \<Rightarrow> Inr (max 0 (min 100 signal_strength)))"

text \<open>
  Lines 316-322, the body of the statistics loop of \<^verbatim>\<open>generate_heatmap\<close>: the signal
  strength read back from a colour.
\<close>

definition signal_of_color :: "vec3 \<Rightarrow> real" where
  "signal_of_color color =
     (let r = vx color; g = vy color
      in if g = 1 \<and> r < 1 then 50 + (1 - r) * 50 else g * 50)"


section \<open>The scene, the configuration and the random source\<close>

text \<open>
  A prim of the stage, as far as the scan of lines 203-216 reads it: its name, whether
  it is a \<^verbatim>\<open>UsdGeom.Xformable\<close>, the token of its visibility attribute, and the
  translation of its local-to-world transform.
\<close>

record prim =
  prim_name :: string
  is_xformable :: bool
  visibility_attr :: string
  world_translation :: vec3

text \<open>Lines 197-216: the positions of the visible towers, in traversal order.\<close>

fun scan_towers :: "prim list \<Rightarrow> vec3 list" where
  "scan_towers [] = []"
| "scan_towers (p # ps) =
     (if sublist ''Tower'' (prim_name p) \<and> is_xformable p
      then (if visibility_attr p = ''invisible''
            then scan_towers ps
            else (let trans = world_translation p
                  in (vx trans, vy trans, vz trans + 5) # scan_towers ps))
      else scan_towers ps)"

text \<open>
  The prim at \<^verbatim>\<open>/World/Signal_Visualizer\<close>: its visibility token and the three
  attributes the pass writes; \<open>None\<close> is an attribute that was never set.
\<close>

record visualizer =
  visibility :: string
  points_attr :: "vec3 list option"
  display_color_attr :: "vec3 list option"
  widths_attr :: "real list option"

text \<open>Lines 187-191: the prim is removed and defined afresh on every pass.\<close>

definition define_points :: visualizer where
  "define_points =
     \<lparr>visibility = ''inherited'', points_attr = None, display_color_attr = None,
      widths_attr = None\<rparr>"

text \<open>The module globals of lines 18-27.\<close>

record config =
  MAX_SIGNAL_RANGE :: real
  MIN_SIGNAL_RANGE :: real
  POINTS_PER_TOWER :: int
  POINT_SIZE :: real

text \<open>
  The random source: \<open>rnd k\<close> is the value the \<open>k\<close>-th call of \<^verbatim>\<open>random.random()\<close>
  of this pass returns.  \<^verbatim>\<open>random.uniform(a, b)\<close> is \<^verbatim>\<open>a + (b - a) * random()\<close>;
  it takes the number of values drawn so far and returns it increased by one.
\<close>

type_synonym random_source = "nat \<Rightarrow> real"

definition uniform :: "random_source \<Rightarrow> real \<Rightarrow> real \<Rightarrow> nat \<Rightarrow> real \<times> nat" where
  "uniform rnd a b k = (a + (b - a) * rnd k, Suc k)"

section \<open>The generator\<close>

text \<open>The two output arrays of line 223-224 and the number of random values drawn.\<close>

record gen_state =
  final_points :: "vec3 list"
  final_colors :: "vec3 list"
  draws :: nat

definition num_rings :: nat where
  "num_rings = 20"

text \<open>Lines 268-299, the body of the innermost loop: one sample point.\<close>

definition add_sample ::
  "random_source \<Rightarrow> real \<Rightarrow> real \<Rightarrow> vec3 \<Rightarrow> real \<Rightarrow> real \<Rightarrow> gen_state \<Rightarrow> error + gen_state" where
  "add_sample rnd max_range min_range origin base_height ring_dist st =
     (let (angle, k1) = uniform rnd 0 (2 * pi) (draws st);
          (jitter, k2) = uniform rnd (- 5) 5 k1;
          actual_dist = max min_range (min max_range (ring_dist + jitter));
          target_x = vx origin + actual_dist * cos angle;
          target_y = vy origin + actual_dist * sin angle
      in case calculate_signal_strength actual_dist max_range min_range of
           Inl e \<Rightarrow> Inl e
         | Inr signal_strength \<Rightarrow>
             (let color = calculate_gradient_color signal_strength;
                  (z_offset, k3) =
                    (if signal_strength > 50
                     then (let (u, k) = uniform rnd (- 5) 5 k2 in (- 25 + u, k))
                     else (let (u, k) = uniform rnd (- 10) 10 k2 in (- 10 + u, k)));
                  target_z = base_height + z_offset
              in Inr \<lparr>final_points = final_points st @ [(target_x, target_y, target_z)],
                      final_colors = final_colors st @ [color],
                      draws = k3\<rparr>))"

text \<open>Line 267: \<^verbatim>\<open>for _ in range(points_per_ring)\<close>.\<close>

fun ring_samples ::
  "random_source \<Rightarrow> real \<Rightarrow> real \<Rightarrow> vec3 \<Rightarrow> real \<Rightarrow> real \<Rightarrow> nat \<Rightarrow> gen_state \<Rightarrow> error + gen_state" where
  "ring_samples rnd max_range min_range origin base_height ring_dist 0 st = Inr st"
| "ring_samples rnd max_range min_range origin base_height ring_dist (Suc n) st =
     (case add_sample rnd max_range min_range origin base_height ring_dist st of
        Inl e \<Rightarrow> Inl e
      | Inr st' \<Rightarrow> ring_samples rnd max_range min_range origin base_height ring_dist n st')"

text \<open>Lines 261-264: \<^verbatim>\<open>for ring_idx in range(num_rings)\<close>, over the indices still to do.\<close>

fun rings ::
  "random_source \<Rightarrow> real \<Rightarrow> real \<Rightarrow> vec3 \<Rightarrow> real \<Rightarrow> nat \<Rightarrow> nat list \<Rightarrow> gen_state \<Rightarrow> error + gen_state" where
  "rings rnd max_range min_range origin base_height points_per_ring [] st = Inr st"
| "rings rnd max_range min_range origin base_height points_per_ring (ring_idx # idxs) st =
     (let ring_progress =
            (if num_rings > 1 then real ring_idx / real (num_rings - 1) else 0);
          ring_dist = min_range + (max_range - min_range) * ring_progress
      in case ring_samples rnd max_range min_range origin base_height ring_dist points_per_ring st of
           Inl e \<Rightarrow> Inl e
         | Inr st' \<Rightarrow> rings rnd max_range min_range origin base_height points_per_ring idxs st')"

text \<open>
  Lines 252-299, the body of the loop over the towers.  \<^verbatim>\<open>//\<close> is the floor division
  of Python's integers, and \<^verbatim>\<open>range\<close> of a negative number is empty.
\<close>

definition process_tower :: "random_source \<Rightarrow> config \<Rightarrow> vec3 \<Rightarrow> gen_state \<Rightarrow> error + gen_state" where
  "process_tower rnd cfg origin st =
     (let points_per_tower = POINTS_PER_TOWER cfg;
          max_range = MAX_SIGNAL_RANGE cfg;
          min_range = MIN_SIGNAL_RANGE cfg;
          base_height = vz origin - 5;
          points_per_ring = points_per_tower div int num_rings
      in rings rnd max_range min_range origin base_height (nat points_per_ring)
           [0..<num_rings] st)"

text \<open>Line 251: \<^verbatim>\<open>for tower_idx, origin in enumerate(tower_positions)\<close>.\<close>

fun towers_loop :: "random_source \<Rightarrow> config \<Rightarrow> vec3 list \<Rightarrow> gen_state \<Rightarrow> error + gen_state" where
  "towers_loop rnd cfg [] st = Inr st"
| "towers_loop rnd cfg (origin # rest) st =
     (case process_tower rnd cfg origin st of
        Inl e \<Rightarrow> Inl e
      | Inr st' \<Rightarrow> towers_loop rnd cfg rest st')"

section \<open>The statistics\<close>

text \<open>Python's \<^verbatim>\<open>min\<close> and \<^verbatim>\<open>max\<close> of a list raise on the empty list.\<close>

fun py_min :: "real list \<Rightarrow> error + real" where
  "py_min [] = Inl ValueError"
| "py_min (x # xs) = Inr (fold min xs x)"

fun py_max :: "real list \<Rightarrow> error + real" where
  "py_max [] = Inl ValueError"
| "py_max (x # xs) = Inr (fold max xs x)"

record statistics =
  min_signal :: real
  max_signal :: real
  avg_signal :: real
  red_count :: nat
  yellow_count :: nat
  green_count :: nat
  total_points :: nat
  red_percent :: real
  yellow_percent :: real
  green_percent :: real

text \<open>
  Lines 313-348: the strengths read back from the colours, their minimum, maximum and
  mean, the three counts, and the three percentages that the report prints.
\<close>

definition signal_statistics :: "vec3 list \<Rightarrow> vec3 list \<Rightarrow> error + statistics" where
  "signal_statistics points colors =
     (let all_signals = map signal_of_color colors
      in case py_min all_signals of Inl e \<Rightarrow> Inl e | Inr mn \<Rightarrow>
         (case py_max all_signals of Inl e \<Rightarrow> Inl e | Inr mx \<Rightarrow>
         (case truediv (sum_list all_signals) (real (length all_signals)) of
            Inl e \<Rightarrow> Inl e
          | Inr avg \<Rightarrow>
         (let reds = length (filter (\<lambda>s. s < 33) all_signals);
              yellows = length (filter (\<lambda>s. 33 \<le> s \<and> s < 66) all_signals);
              greens = length (filter (\<lambda>s. s \<ge> 66) all_signals);
              total = length points
          in case truediv (real reds) (real total) of Inl e \<Rightarrow> Inl e | Inr rp \<Rightarrow>
             (case truediv (real yellows) (real total) of Inl e \<Rightarrow> Inl e | Inr yp \<Rightarrow>
             (case truediv (real greens) (real total) of Inl e \<Rightarrow> Inl e | Inr gp \<Rightarrow>
                Inr \<lparr>min_signal = mn, max_signal = mx, avg_signal = avg,
                     red_count = reds, yellow_count = yellows, green_count = greens,
                     total_points = total,
                     red_percent = rp * 100, yellow_percent = yp * 100,
                     green_percent = gp * 100\<rparr>))))))"

section \<open>The pass\<close>

text \<open>How a pass ends when it raises nothing: the visualizer hidden, or updated.\<close>

datatype outcome = Hidden | Updated statistics

text \<open>
  Lines 180-354.  The pass returns the visualizer as it leaves it, also when it raises:
  an exception keeps what was written before it.
\<close>

definition generate_heatmap ::
  "config \<Rightarrow> prim list \<Rightarrow> random_source \<Rightarrow> visualizer \<times> (error + outcome)" where
  "generate_heatmap cfg stage rnd =
     (let points_prim = define_points;
          tower_positions = scan_towers stage
      in if tower_positions = []
         then (points_prim\<lparr>visibility := ''invisible'', points_attr := Some [],
                 display_color_attr := Some []\<rparr>,
               Inr Hidden)
         else
           (let shown = points_prim\<lparr>visibility := ''inherited''\<rparr>
            in case towers_loop rnd cfg tower_positions
                      \<lparr>final_points = [], final_colors = [], draws = 0\<rparr> of
                 Inl e \<Rightarrow> (shown, Inl e)
               | Inr st \<Rightarrow>
                   (let num_points = length (final_points st);
                        written = shown\<lparr>points_attr := Some (final_points st),
                                    display_color_attr := Some (final_colors st),
                                    widths_attr := Some (replicate num_points (POINT_SIZE cfg))\<rparr>
                    in case signal_statistics (final_points st) (final_colors st) of
                         Inl e \<Rightarrow> (written, Inl e)
                       | Inr stats \<Rightarrow> (written, Inr (Updated stats)))))"

section \<open>Measures and auxiliary terms of the statements\<close>

text \<open>The distance of a point from a tower in the plane of \<open>x\<close> and \<open>y\<close>.\<close>

definition planar_distance :: "vec3 \<Rightarrow> vec3 \<Rightarrow> real" where
  "planar_distance p origin = sqrt ((vx p - vx origin)\<^sup>2 + (vy p - vy origin)\<^sup>2)"

definition within_range :: "real \<Rightarrow> real \<Rightarrow> vec3 \<Rightarrow> vec3 \<Rightarrow> bool" where
  "within_range min_range max_range origin p \<longleftrightarrow>
     min_range \<le> planar_distance p origin \<and> planar_distance p origin \<le> max_range"

text \<open>
  The clamped distance and the point of the sample that starts at draw \<open>k\<close>, written
  out from \<open>add_sample\<close>; \<open>s\<close> is the strength computed for it.
\<close>

definition sample_dist :: "random_source \<Rightarrow> real \<Rightarrow> real \<Rightarrow> real \<Rightarrow> nat \<Rightarrow> real" where
  "sample_dist rnd mx mn d k = max mn (min mx (d + (- 5 + (5 - (- 5)) * rnd (Suc k))))"

definition sample_point ::
  "random_source \<Rightarrow> real \<Rightarrow> real \<Rightarrow> vec3 \<Rightarrow> real \<Rightarrow> real \<Rightarrow> nat \<Rightarrow> real \<Rightarrow> vec3" where
  "sample_point rnd mx mn origin bh d k s =
     (vx origin + sample_dist rnd mx mn d k * cos (0 + (2 * pi - 0) * rnd k),
      vy origin + sample_dist rnd mx mn d k * sin (0 + (2 * pi - 0) * rnd k),
      bh + (if s > 50 then - 25 + (- 5 + (5 - (- 5)) * rnd (Suc (Suc k)))
            else - 10 + (- 10 + (10 - (- 10)) * rnd (Suc (Suc k)))))"

text \<open>The number of points one tower adds: \<open>num_rings\<close> rings of \<open>points_per_ring\<close> samples.\<close>

definition tower_points :: "config \<Rightarrow> nat" where
  "tower_points cfg = num_rings * nat (POINTS_PER_TOWER cfg div int num_rings)"

section \<open>Properties of the signal model\<close>

lemma calculate_signal_strength_valid:
  assumes "min_distance < max_distance"
  shows "calculate_signal_strength d max_distance min_distance =
           Inr (100 * (max_distance - max min_distance (min max_distance d))
                  / (max_distance - min_distance))"
proof -
  let ?c = "max min_distance (min max_distance d)"
  have den: "0 < max_distance - min_distance" using assms by simp
  have lo: "0 \<le> max_distance - ?c" using assms by simp
  have hi: "max_distance - ?c \<le> max_distance - min_distance" by simp
  have nonneg: "0 \<le> 100 * (max_distance - ?c) / (max_distance - min_distance)"
    using den lo by simp
  have "100 * (max_distance - ?c) \<le> 100 * (max_distance - min_distance)"
    using hi by simp
  then have le: "100 * (max_distance - ?c) / (max_distance - min_distance) \<le> 100"
    using den by (simp add: pos_divide_le_eq)
  show ?thesis
    using den nonneg le
    by (simp add: calculate_signal_strength_def truediv_def Let_def max_absorb2 min_absorb2)
qed

text \<open>
  C1. With \<^verbatim>\<open>max_distance == min_distance\<close> the source divides by zero at line 175:
  for every distance the call raises \<^verbatim>\<open>ZeroDivisionError\<close> and returns no value.
\<close>

theorem calculate_signal_strength_degenerate_raises:
  "calculate_signal_strength distance m m = Inl ZeroDivisionError"
  by (simp add: calculate_signal_strength_def truediv_def)

text \<open>
  C2. For a strength between 0 and 100, reading the strength back from its gradient
  colour gives the strength again.
\<close>

theorem signal_of_color_roundtrip:
  assumes "0 \<le> s" and "s \<le> 100"
  shows "signal_of_color (calculate_gradient_color s) = s"
proof (cases "50 < s")
  case True
  have "50 + (1 - (1 - (s - 50) / 50)) * 50 = s" by (simp add: field_simps)
  then show ?thesis
    using assms True
    by (simp add: signal_of_color_def calculate_gradient_color_def vx_def vy_def Let_def
        del: distrib_left_numeral distrib_right_numeral)
next
  case False
  then show ?thesis
    using assms
    by (simp add: signal_of_color_def calculate_gradient_color_def vx_def vy_def Let_def)
qed

theorem signal_of_color_roundtrip_witness:
  "(0::real) \<le> 75 \<and> (75::real) \<le> 100
     \<and> signal_of_color (calculate_gradient_color 75) = 75"
  using signal_of_color_roundtrip [of 75] by simp

lemma gradient_limit_right:
  "(calculate_gradient_color \<longlongrightarrow> (1, 1, 0)) (at_right 50)"
proof -
  have ev: "eventually (\<lambda>s. (1 - (s - 50) / 50, 1::real, 0::real) = calculate_gradient_color s)
              (at_right 50)"
    unfolding eventually_at_right_field
    by (rule exI [of _ 100]) (simp add: calculate_gradient_color_def Let_def)
  have "((\<lambda>s::real. (1 - (s - 50) / 50, 1::real, 0::real))
           \<longlongrightarrow> (1 - (50 - 50) / 50, 1, 0)) (at_right 50)"
    by (intro tendsto_intros) simp_all
  then have "((\<lambda>s::real. (1 - (s - 50) / 50, 1::real, 0::real)) \<longlongrightarrow> (1, 1, 0)) (at_right 50)"
    by simp
  then show ?thesis
    using ev by (rule Lim_transform_eventually)
qed

lemma gradient_limit_left:
  "(calculate_gradient_color \<longlongrightarrow> (1, 1, 0)) (at_left 50)"
proof -
  have ev: "eventually (\<lambda>s. (1::real, s / 50, 0::real) = calculate_gradient_color s) (at_left 50)"
    unfolding eventually_at_left_field
    by (rule exI [of _ 0]) (simp add: calculate_gradient_color_def Let_def)
  have "((\<lambda>s::real. (1::real, s / 50, 0::real)) \<longlongrightarrow> (1, 50 / 50, 0)) (at_left 50)"
    by (intro tendsto_intros) simp_all
  then have "((\<lambda>s::real. (1::real, s / 50, 0::real)) \<longlongrightarrow> (1, 1, 0)) (at_left 50)"
    by simp
  then show ?thesis
    using ev by (rule Lim_transform_eventually)
qed

text \<open>
  C3. The gradient maps strength 0 to red \<open>(1,0,0)\<close>, 50 to yellow \<open>(1,1,0)\<close> and 100 to
  green \<open>(0,1,0)\<close>; the limit of the branch for strengths above 50, as the strength
  falls to 50, is the value \<open>(1,1,0)\<close> that the other branch takes at 50, and the
  gradient is continuous at 50.
\<close>

theorem calculate_gradient_color_anchors_continuous:
  "calculate_gradient_color 0 = (1, 0, 0)
     \<and> calculate_gradient_color 50 = (1, 1, 0)
     \<and> calculate_gradient_color 100 = (0, 1, 0)
     \<and> (calculate_gradient_color \<longlongrightarrow> calculate_gradient_color 50) (at_right 50)
     \<and> isCont calculate_gradient_color 50"
proof -
  have a: "calculate_gradient_color 0 = (1, 0, 0)"
    by (simp add: calculate_gradient_color_def)
  have b: "calculate_gradient_color 50 = (1, 1, 0)"
    by (simp add: calculate_gradient_color_def)
  have c: "calculate_gradient_color 100 = (0, 1, 0)"
    by (simp add: calculate_gradient_color_def)
  have d: "(calculate_gradient_color \<longlongrightarrow> calculate_gradient_color 50) (at_right 50)"
    using gradient_limit_right b by simp
  have e: "isCont calculate_gradient_color 50"
    using gradient_limit_right gradient_limit_left b
    by (simp add: isCont_def filterlim_at_split)
  show ?thesis using a b c d e by blast
qed



text \<open>
  C5. With \<^verbatim>\<open>max_distance > min_distance\<close> fixed, the strength does not increase
  with the distance: for \<^verbatim>\<open>d1 <= d2\<close> both calls return, and the strength at
  \<^verbatim>\<open>d2\<close> is at most the strength at \<^verbatim>\<open>d1\<close>.
\<close>

theorem calculate_signal_strength_antimono:
  assumes "min_distance < max_distance" and "d1 \<le> d2"
  shows "\<exists>v1 v2. calculate_signal_strength d1 max_distance min_distance = Inr v1
           \<and> calculate_signal_strength d2 max_distance min_distance = Inr v2
           \<and> v2 \<le> v1"
proof -
  have den: "0 < max_distance - min_distance" using assms(1) by simp
  have "max min_distance (min max_distance d1) \<le> max min_distance (min max_distance d2)"
    using assms(2) by simp
  then have "100 * (max_distance - max min_distance (min max_distance d2))
               \<le> 100 * (max_distance - max min_distance (min max_distance d1))"
    by simp
  then have "100 * (max_distance - max min_distance (min max_distance d2))
                 / (max_distance - min_distance)
               \<le> 100 * (max_distance - max min_distance (min max_distance d1))
                 / (max_distance - min_distance)"
    using den by (simp add: divide_le_cancel)
  then show ?thesis
    using calculate_signal_strength_valid [OF assms(1)] by simp
qed

theorem calculate_signal_strength_antimono_witness:
  "(5::real) < 150 \<and> (20::real) \<le> 90
     \<and> (\<exists>v1 v2. calculate_signal_strength 20 150 5 = Inr v1
           \<and> calculate_signal_strength 90 150 5 = Inr v2
           \<and> v2 \<le> v1)"
  using calculate_signal_strength_antimono [of 5 150 20 90] by simp

section \<open>Properties of the generator\<close>

lemma strength_returns:
  "mx \<noteq> mn \<Longrightarrow> \<exists>v. calculate_signal_strength d mx mn = Inr v"
  by (simp add: calculate_signal_strength_def truediv_def)

lemma strength_Inl:
  "calculate_signal_strength d mx mn = Inl e \<Longrightarrow> e = ZeroDivisionError"
  by (simp add: calculate_signal_strength_def truediv_def split: if_splits)

lemma planar_distance_polar:
  "planar_distance (vx origin + a * cos t, vy origin + a * sin t, z) origin = \<bar>a\<bar>"
proof -
  have "(a * cos t)\<^sup>2 + (a * sin t)\<^sup>2 = a\<^sup>2 * (cos t)\<^sup>2 + a\<^sup>2 * (sin t)\<^sup>2"
    by (simp only: power_mult_distrib)
  also have "\<dots> = a\<^sup>2 * ((cos t)\<^sup>2 + (sin t)\<^sup>2)"
    by (simp only: distrib_left)
  also have "\<dots> = a\<^sup>2"
    by simp
  finally have "(a * cos t)\<^sup>2 + (a * sin t)\<^sup>2 = a\<^sup>2" .
  then show ?thesis
    by (simp add: planar_distance_def vx_def vy_def)
qed

lemma within_range_polar:
  assumes "0 \<le> mn" and "mn \<le> mx"
  shows "within_range mn mx origin
           (vx origin + max mn (min mx d) * cos t, vy origin + max mn (min mx d) * sin t, z)"
proof -
  have "0 \<le> max mn (min mx d)" using assms by simp
  then have "\<bar>max mn (min mx d)\<bar> = max mn (min mx d)" by simp
  then show ?thesis
    using assms by (simp add: within_range_def planar_distance_polar)
qed

lemma add_sample_eq:
  "add_sample rnd mx mn origin bh d st =
     (case calculate_signal_strength (sample_dist rnd mx mn d (draws st)) mx mn of
        Inl e \<Rightarrow> Inl e
      | Inr s \<Rightarrow>
          Inr \<lparr>final_points = final_points st @ [sample_point rnd mx mn origin bh d (draws st) s],
               final_colors = final_colors st @ [calculate_gradient_color s],
               draws = Suc (Suc (Suc (draws st)))\<rparr>)"
  by (simp add: add_sample_def uniform_def sample_dist_def sample_point_def Let_def
      split: sum.splits)

lemma within_range_sample_point:
  assumes "0 \<le> mn" and "mn \<le> mx"
  shows "within_range mn mx origin (sample_point rnd mx mn origin bh d k s)"
  unfolding sample_point_def sample_dist_def
  using assms by (rule within_range_polar)

lemma add_sample_Inr:
  assumes "add_sample rnd mx mn origin bh d st = Inr st'"
  shows "\<exists>p c. final_points st' = final_points st @ [p]
           \<and> final_colors st' = final_colors st @ [c]
           \<and> (0 \<le> mn \<longrightarrow> mn \<le> mx \<longrightarrow> within_range mn mx origin p)"
proof (cases "calculate_signal_strength (sample_dist rnd mx mn d (draws st)) mx mn")
  case (Inl e)
  then show ?thesis using assms by (simp add: add_sample_eq)
next
  case (Inr s)
  let ?p = "sample_point rnd mx mn origin bh d (draws st) s"
  have "final_points st' = final_points st @ [?p]"
    using assms Inr by (auto simp: add_sample_eq)
  moreover have "final_colors st' = final_colors st @ [calculate_gradient_color s]"
    using assms Inr by (auto simp: add_sample_eq)
  moreover have "0 \<le> mn \<longrightarrow> mn \<le> mx \<longrightarrow> within_range mn mx origin ?p"
    by (simp add: within_range_sample_point)
  ultimately show ?thesis by blast
qed

lemma add_sample_Inl:
  assumes "add_sample rnd mx mn origin bh d st = Inl e"
  shows "e = ZeroDivisionError"
proof (cases "calculate_signal_strength (sample_dist rnd mx mn d (draws st)) mx mn")
  case (Inl e')
  then show ?thesis using assms strength_Inl by (simp add: add_sample_eq)
next
  case (Inr s)
  then show ?thesis using assms by (simp add: add_sample_eq)
qed

lemma add_sample_returns:
  assumes "mx \<noteq> mn"
  shows "\<exists>st'. add_sample rnd mx mn origin bh d st = Inr st'"
proof -
  obtain v where "calculate_signal_strength (sample_dist rnd mx mn d (draws st)) mx mn = Inr v"
    using strength_returns [OF assms] by blast
  then show ?thesis by (simp add: add_sample_eq)
qed

lemma ring_samples_Inr:
  assumes "ring_samples rnd mx mn origin bh d n st = Inr st'"
  shows "\<exists>ps cs. final_points st' = final_points st @ ps
           \<and> final_colors st' = final_colors st @ cs
           \<and> length ps = n \<and> length cs = n
           \<and> (0 \<le> mn \<longrightarrow> mn \<le> mx \<longrightarrow> (\<forall>p \<in> set ps. within_range mn mx origin p))"
  using assms
proof (induction n arbitrary: st)
  case 0
  then show ?case by simp
next
  case (Suc n)
  from Suc.prems obtain st1 where
    s1: "add_sample rnd mx mn origin bh d st = Inr st1" and
    r1: "ring_samples rnd mx mn origin bh d n st1 = Inr st'"
    by (auto split: sum.splits)
  from add_sample_Inr [OF s1] obtain p c where
    p: "final_points st1 = final_points st @ [p]" and
    c: "final_colors st1 = final_colors st @ [c]" and
    w: "0 \<le> mn \<longrightarrow> mn \<le> mx \<longrightarrow> within_range mn mx origin p"
    by blast
  from Suc.IH [OF r1] obtain ps cs where
    ps: "final_points st' = final_points st1 @ ps" and
    cs: "final_colors st' = final_colors st1 @ cs" and
    l: "length ps = n" "length cs = n" and
    ws: "0 \<le> mn \<longrightarrow> mn \<le> mx \<longrightarrow> (\<forall>p \<in> set ps. within_range mn mx origin p)"
    by blast
  have "final_points st' = final_points st @ (p # ps)" using p ps by simp
  moreover have "final_colors st' = final_colors st @ (c # cs)" using c cs by simp
  moreover have "length (p # ps) = Suc n" "length (c # cs) = Suc n" using l by simp_all
  moreover have "0 \<le> mn \<longrightarrow> mn \<le> mx \<longrightarrow> (\<forall>q \<in> set (p # ps). within_range mn mx origin q)"
    using w ws by simp
  ultimately show ?case by blast
qed

lemma ring_samples_Inl:
  "ring_samples rnd mx mn origin bh d n st = Inl e \<Longrightarrow> e = ZeroDivisionError"
  by (induction n arbitrary: st) (auto split: sum.splits dest: add_sample_Inl)

lemma ring_samples_returns:
  "mx \<noteq> mn \<Longrightarrow> \<exists>st'. ring_samples rnd mx mn origin bh d n st = Inr st'"
proof (induction n arbitrary: st)
  case 0
  then show ?case by simp
next
  case (Suc n)
  obtain st1 where "add_sample rnd mx mn origin bh d st = Inr st1"
    using add_sample_returns [OF Suc.prems] by blast
  then show ?case using Suc.IH [OF Suc.prems, of st1] by simp
qed

lemma rings_Inr:
  assumes "rings rnd mx mn origin bh ppr idxs st = Inr st'"
  shows "\<exists>ps cs. final_points st' = final_points st @ ps
           \<and> final_colors st' = final_colors st @ cs
           \<and> length ps = length idxs * ppr \<and> length cs = length idxs * ppr
           \<and> (0 \<le> mn \<longrightarrow> mn \<le> mx \<longrightarrow> (\<forall>p \<in> set ps. within_range mn mx origin p))"
  using assms
proof (induction idxs arbitrary: st)
  case Nil
  then show ?case by simp
next
  case (Cons i idxs)
  let ?d = "mn + (mx - mn) * (if num_rings > 1 then real i / real (num_rings - 1) else 0)"
  from Cons.prems obtain st1 where
    s1: "ring_samples rnd mx mn origin bh ?d ppr st = Inr st1" and
    r1: "rings rnd mx mn origin bh ppr idxs st1 = Inr st'"
    by (auto simp: Let_def split: sum.splits)
  from ring_samples_Inr [OF s1] obtain ps1 cs1 where
    p1: "final_points st1 = final_points st @ ps1" and
    c1: "final_colors st1 = final_colors st @ cs1" and
    l1: "length ps1 = ppr" "length cs1 = ppr" and
    w1: "0 \<le> mn \<longrightarrow> mn \<le> mx \<longrightarrow> (\<forall>p \<in> set ps1. within_range mn mx origin p)"
    by blast
  from Cons.IH [OF r1] obtain ps cs where
    ps: "final_points st' = final_points st1 @ ps" and
    cs: "final_colors st' = final_colors st1 @ cs" and
    l: "length ps = length idxs * ppr" "length cs = length idxs * ppr" and
    ws: "0 \<le> mn \<longrightarrow> mn \<le> mx \<longrightarrow> (\<forall>p \<in> set ps. within_range mn mx origin p)"
    by blast
  have "final_points st' = final_points st @ (ps1 @ ps)" using p1 ps by simp
  moreover have "final_colors st' = final_colors st @ (cs1 @ cs)" using c1 cs by simp
  moreover have "length (ps1 @ ps) = length (i # idxs) * ppr"
    "length (cs1 @ cs) = length (i # idxs) * ppr"
    using l l1 by simp_all
  moreover have "0 \<le> mn \<longrightarrow> mn \<le> mx \<longrightarrow> (\<forall>q \<in> set (ps1 @ ps). within_range mn mx origin q)"
    using w1 ws by auto
  ultimately show ?case by blast
qed

lemma rings_Inl:
  "rings rnd mx mn origin bh ppr idxs st = Inl e \<Longrightarrow> e = ZeroDivisionError"
  by (induction idxs arbitrary: st)
     (auto simp: Let_def split: sum.splits dest: ring_samples_Inl)

lemma rings_returns:
  assumes "mx \<noteq> mn"
  shows "\<exists>st'. rings rnd mx mn origin bh ppr idxs st = Inr st'"
proof (induction idxs arbitrary: st)
  case Nil
  then show ?case by simp
next
  case (Cons i idxs)
  let ?d = "mn + (mx - mn) * (if num_rings > 1 then real i / real (num_rings - 1) else 0)"
  obtain st1 where "ring_samples rnd mx mn origin bh ?d ppr st = Inr st1"
    using ring_samples_returns [OF assms] by blast
  then show ?case using Cons.IH [of st1] by (simp add: Let_def)
qed

lemma rings_no_points:
  "rings rnd mx mn origin bh 0 idxs st = Inr st"
  by (induction idxs) (simp_all add: Let_def)

lemma process_tower_Inr:
  assumes "process_tower rnd cfg origin st = Inr st'"
  shows "\<exists>ps cs. final_points st' = final_points st @ ps
           \<and> final_colors st' = final_colors st @ cs
           \<and> length ps = tower_points cfg \<and> length cs = tower_points cfg
           \<and> (0 \<le> MIN_SIGNAL_RANGE cfg \<longrightarrow> MIN_SIGNAL_RANGE cfg \<le> MAX_SIGNAL_RANGE cfg \<longrightarrow>
                (\<forall>p \<in> set ps. within_range (MIN_SIGNAL_RANGE cfg) (MAX_SIGNAL_RANGE cfg) origin p))"
  using rings_Inr [OF assms [unfolded process_tower_def Let_def]]
  by (simp add: tower_points_def)

lemma process_tower_Inl:
  "process_tower rnd cfg origin st = Inl e \<Longrightarrow> e = ZeroDivisionError"
  unfolding process_tower_def Let_def by (rule rings_Inl)

lemma process_tower_returns:
  "MAX_SIGNAL_RANGE cfg \<noteq> MIN_SIGNAL_RANGE cfg \<Longrightarrow>
     \<exists>st'. process_tower rnd cfg origin st = Inr st'"
  unfolding process_tower_def Let_def by (rule rings_returns)

lemma process_tower_no_points:
  "POINTS_PER_TOWER cfg < 20 \<Longrightarrow> process_tower rnd cfg origin st = Inr st"
  by (simp add: process_tower_def Let_def num_rings_def rings_no_points)

lemma towers_loop_Inr:
  assumes "towers_loop rnd cfg ts st = Inr st'"
  shows "\<exists>blocks cs. final_points st' = final_points st @ concat blocks
           \<and> final_colors st' = final_colors st @ cs
           \<and> length (concat blocks) = length ts * tower_points cfg
           \<and> length cs = length ts * tower_points cfg
           \<and> (0 \<le> MIN_SIGNAL_RANGE cfg \<longrightarrow> MIN_SIGNAL_RANGE cfg \<le> MAX_SIGNAL_RANGE cfg \<longrightarrow>
                list_all2 (\<lambda>origin block. \<forall>p \<in> set block.
                     within_range (MIN_SIGNAL_RANGE cfg) (MAX_SIGNAL_RANGE cfg) origin p)
                  ts blocks)"
  using assms
proof (induction ts arbitrary: st)
  case Nil
  then have "final_points st' = final_points st @ concat []"
    "final_colors st' = final_colors st @ []" by simp_all
  then show ?case by (intro exI [of _ "[]"]) simp
next
  case (Cons origin ts)
  from Cons.prems obtain st1 where
    s1: "process_tower rnd cfg origin st = Inr st1" and
    r1: "towers_loop rnd cfg ts st1 = Inr st'"
    by (auto split: sum.splits)
  let ?W = "\<lambda>origin block. \<forall>p \<in> set block.
              within_range (MIN_SIGNAL_RANGE cfg) (MAX_SIGNAL_RANGE cfg) origin p"
  let ?ok = "0 \<le> MIN_SIGNAL_RANGE cfg \<and> MIN_SIGNAL_RANGE cfg \<le> MAX_SIGNAL_RANGE cfg"
  from process_tower_Inr [OF s1] obtain ps1 cs1 where
    p1: "final_points st1 = final_points st @ ps1" and
    c1: "final_colors st1 = final_colors st @ cs1" and
    l1: "length ps1 = tower_points cfg" "length cs1 = tower_points cfg" and
    w1: "?ok \<longrightarrow> ?W origin ps1"
    by blast
  from Cons.IH [OF r1] obtain blocks cs where
    ps: "final_points st' = final_points st1 @ concat blocks" and
    cs: "final_colors st' = final_colors st1 @ cs" and
    l: "length (concat blocks) = length ts * tower_points cfg"
       "length cs = length ts * tower_points cfg" and
    ws: "?ok \<longrightarrow> list_all2 ?W ts blocks"
    by blast
  have "final_points st' = final_points st @ concat (ps1 # blocks)" using p1 ps by simp
  moreover have "final_colors st' = final_colors st @ (cs1 @ cs)" using c1 cs by simp
  moreover have "length (concat (ps1 # blocks)) = length (origin # ts) * tower_points cfg"
    using l(1) l1(1) by simp
  moreover have "length (cs1 @ cs) = length (origin # ts) * tower_points cfg"
    using l(2) l1(2) by simp
  moreover have "?ok \<longrightarrow> list_all2 ?W (origin # ts) (ps1 # blocks)"
    using w1 ws by simp
  ultimately show ?case by blast
qed

lemma towers_loop_Inl:
  "towers_loop rnd cfg ts st = Inl e \<Longrightarrow> e = ZeroDivisionError"
  by (induction ts arbitrary: st) (auto split: sum.splits dest: process_tower_Inl)

lemma towers_loop_returns:
  assumes "MAX_SIGNAL_RANGE cfg \<noteq> MIN_SIGNAL_RANGE cfg"
  shows "\<exists>st'. towers_loop rnd cfg ts st = Inr st'"
proof (induction ts arbitrary: st)
  case Nil
  then show ?case by simp
next
  case (Cons origin ts)
  obtain st1 where "process_tower rnd cfg origin st = Inr st1"
    using process_tower_returns [OF assms] by blast
  then show ?case using Cons.IH [of st1] by simp
qed

lemma towers_loop_no_points:
  "POINTS_PER_TOWER cfg < 20 \<Longrightarrow> towers_loop rnd cfg ts st = Inr st"
  by (induction ts) (simp_all add: process_tower_no_points)

lemma bucket_counts:
  "length (filter (\<lambda>s::real. s < 33) xs) + length (filter (\<lambda>s. 33 \<le> s \<and> s < 66) xs)
     + length (filter (\<lambda>s. s \<ge> 66) xs) = length xs"
  by (induction xs) auto

lemma signal_statistics_empty:
  "signal_statistics points [] = Inl ValueError"
  by (simp add: signal_statistics_def)

lemma signal_statistics_Inr:
  assumes "signal_statistics points colors = Inr stats"
  shows "red_count stats + yellow_count stats + green_count stats = length colors
           \<and> total_points stats = length points"
  using assms bucket_counts [of "map signal_of_color colors"]
  by (auto simp: signal_statistics_def Let_def split: sum.splits)

lemma signal_statistics_returns:
  assumes "colors \<noteq> []" and "points \<noteq> []"
  shows "\<exists>stats. signal_statistics points colors = Inr stats"
proof -
  obtain c cs where c: "colors = c # cs" using assms(1) by (cases colors) auto
  show ?thesis
    using assms(2) by (simp add: signal_statistics_def Let_def truediv_def c)
qed

section \<open>Properties of the pass\<close>

lemma generate_heatmap_hidden:
  assumes "scan_towers stage = []"
  shows "generate_heatmap cfg stage rnd =
           (\<lparr>visibility = ''invisible'', points_attr = Some [], display_color_attr = Some [],
             widths_attr = None\<rparr>, Inr Hidden)"
  using assms by (simp add: generate_heatmap_def define_points_def)

lemma generate_heatmap_raised:
  assumes "scan_towers stage \<noteq> []"
    and "towers_loop rnd cfg (scan_towers stage)
           \<lparr>final_points = [], final_colors = [], draws = 0\<rparr> = Inl e"
  shows "generate_heatmap cfg stage rnd =
           (\<lparr>visibility = ''inherited'', points_attr = None, display_color_attr = None,
             widths_attr = None\<rparr>, Inl e)"
  using assms by (simp add: generate_heatmap_def define_points_def)

lemma generate_heatmap_written:
  assumes "scan_towers stage \<noteq> []"
    and "towers_loop rnd cfg (scan_towers stage)
           \<lparr>final_points = [], final_colors = [], draws = 0\<rparr> = Inr st"
  shows "generate_heatmap cfg stage rnd =
           (\<lparr>visibility = ''inherited'', points_attr = Some (final_points st),
             display_color_attr = Some (final_colors st),
             widths_attr = Some (replicate (length (final_points st)) (POINT_SIZE cfg))\<rparr>,
            case signal_statistics (final_points st) (final_colors st) of
              Inl e \<Rightarrow> Inl e
            | Inr stats \<Rightarrow> Inr (Updated stats))"
  using assms by (simp add: generate_heatmap_def define_points_def Let_def split: sum.splits)


lemma generate_heatmap_points:
  assumes "scan_towers stage \<noteq> []"
    and "MAX_SIGNAL_RANGE cfg \<noteq> MIN_SIGNAL_RANGE cfg"
  shows "\<exists>pts cols. points_attr (fst (generate_heatmap cfg stage rnd)) = Some pts
           \<and> display_color_attr (fst (generate_heatmap cfg stage rnd)) = Some cols
           \<and> length pts = length (scan_towers stage) * tower_points cfg
           \<and> length cols = length (scan_towers stage) * tower_points cfg
           \<and> snd (generate_heatmap cfg stage rnd) =
               (case signal_statistics pts cols of
                  Inl e \<Rightarrow> Inl e
                | Inr stats \<Rightarrow> Inr (Updated stats))"
proof -
  let ?init = "\<lparr>final_points = [], final_colors = [], draws = 0\<rparr>"
  obtain st where st: "towers_loop rnd cfg (scan_towers stage) ?init = Inr st"
    using towers_loop_returns [OF assms(2)] by blast
  from towers_loop_Inr [OF st] obtain blocks cs where
    "final_points st = final_points ?init @ concat blocks"
    "final_colors st = final_colors ?init @ cs"
    "length (concat blocks) = length (scan_towers stage) * tower_points cfg"
    "length cs = length (scan_towers stage) * tower_points cfg"
    by blast
  then have "length (final_points st) = length (scan_towers stage) * tower_points cfg"
    "length (final_colors st) = length (scan_towers stage) * tower_points cfg"
    by simp_all
  then show ?thesis
    by (simp add: generate_heatmap_written [OF assms(1) st])
qed

text \<open>
  C6. When the scan finds no visible tower, the pass sets the visualizer's visibility to
  \<^verbatim>\<open>invisible\<close>, writes the empty list to its points and to its colours, leaves the
  widths unset, and returns normally.
\<close>

theorem no_towers_hides_visualizer:
  assumes "scan_towers stage = []"
  shows "generate_heatmap cfg stage rnd =
           (\<lparr>visibility = ''invisible'', points_attr = Some [], display_color_attr = Some [],
             widths_attr = None\<rparr>, Inr Hidden)"
  using assms by (simp add: generate_heatmap_def define_points_def)

theorem no_towers_hides_visualizer_witness:
  "scan_towers
       [\<lparr>prim_name = ''Cell_Tower_1'', is_xformable = True, visibility_attr = ''invisible'',
         world_translation = (10, 20, 0)\<rparr>,
        \<lparr>prim_name = ''Ground'', is_xformable = True, visibility_attr = ''inherited'',
         world_translation = (0, 0, 0)\<rparr>] = []
     \<and> generate_heatmap
         \<lparr>MAX_SIGNAL_RANGE = 150, MIN_SIGNAL_RANGE = 5, POINTS_PER_TOWER = 400, POINT_SIZE = 4\<rparr>
         [\<lparr>prim_name = ''Cell_Tower_1'', is_xformable = True, visibility_attr = ''invisible'',
           world_translation = (10, 20, 0)\<rparr>,
          \<lparr>prim_name = ''Ground'', is_xformable = True, visibility_attr = ''inherited'',
           world_translation = (0, 0, 0)\<rparr>]
         (\<lambda>k. 0) =
         (\<lparr>visibility = ''invisible'', points_attr = Some [], display_color_attr = Some [],
           widths_attr = None\<rparr>, Inr Hidden)"
proof -
  have h: "scan_towers
       [\<lparr>prim_name = ''Cell_Tower_1'', is_xformable = True, visibility_attr = ''invisible'',
         world_translation = (10, 20, 0)\<rparr>,
        \<lparr>prim_name = ''Ground'', is_xformable = True, visibility_attr = ''inherited'',
         world_translation = (0, 0, 0)\<rparr>] = []"
    by (simp add: sublist_code(3))
  show ?thesis
    using h no_towers_hides_visualizer [OF h] by blast
qed






text \<open>
  C9. A pass with a tower, distinct ranges and at least 20 points per tower returns with
  statistics; and whenever a pass returns with statistics, the counts of weak, medium
  and strong strengths add up to the number of points written to the visualizer, which
  is the total the statistics report.
\<close>

theorem bucket_counts_sum_to_total:
  "(scan_towers stage \<noteq> [] \<and> MAX_SIGNAL_RANGE cfg \<noteq> MIN_SIGNAL_RANGE cfg
        \<and> 20 \<le> POINTS_PER_TOWER cfg
      \<longrightarrow> (\<exists>stats. snd (generate_heatmap cfg stage rnd) = Inr (Updated stats)))
   \<and> (snd (generate_heatmap cfg stage rnd) = Inr (Updated stats)
      \<longrightarrow> (\<exists>pts. points_attr (fst (generate_heatmap cfg stage rnd)) = Some pts
             \<and> red_count stats + yellow_count stats + green_count stats = length pts
             \<and> total_points stats = length pts))"
proof -
  let ?init = "\<lparr>final_points = [], final_colors = [], draws = 0\<rparr>"
  have returns: "\<exists>stats. snd (generate_heatmap cfg stage rnd) = Inr (Updated stats)"
    if ne: "scan_towers stage \<noteq> []"
      and ms: "MAX_SIGNAL_RANGE cfg \<noteq> MIN_SIGNAL_RANGE cfg"
      and pp: "20 \<le> POINTS_PER_TOWER cfg"
  proof -
    obtain pts cols where
      len: "length pts = length (scan_towers stage) * tower_points cfg"
        "length cols = length (scan_towers stage) * tower_points cfg" and
      res: "snd (generate_heatmap cfg stage rnd) =
              (case signal_statistics pts cols of
                 Inl e \<Rightarrow> Inl e | Inr stats \<Rightarrow> Inr (Updated stats))"
      using generate_heatmap_points [OF ne ms] by blast
    have "0 < tower_points cfg"
      using pp by (simp add: tower_points_def num_rings_def)
    then have "0 < length (scan_towers stage) * tower_points cfg"
      using ne by simp
    then have "pts \<noteq> []" "cols \<noteq> []" using len by auto
    then obtain stats where "signal_statistics pts cols = Inr stats"
      using signal_statistics_returns by blast
    then show ?thesis using res by simp
  qed
  have sums: "\<exists>pts. points_attr (fst (generate_heatmap cfg stage rnd)) = Some pts
             \<and> red_count stats + yellow_count stats + green_count stats = length pts
             \<and> total_points stats = length pts"
    if upd: "snd (generate_heatmap cfg stage rnd) = Inr (Updated stats)"
  proof -
    have ne: "scan_towers stage \<noteq> []"
      using upd by (auto simp: generate_heatmap_hidden)
    obtain st where st: "towers_loop rnd cfg (scan_towers stage) ?init = Inr st"
      using upd ne by (cases "towers_loop rnd cfg (scan_towers stage) ?init")
        (auto simp: generate_heatmap_raised)
    from towers_loop_Inr [OF st] obtain blocks cs where
      "final_points st = final_points ?init @ concat blocks"
      "final_colors st = final_colors ?init @ cs"
      "length (concat blocks) = length (scan_towers stage) * tower_points cfg"
      "length cs = length (scan_towers stage) * tower_points cfg"
      by blast
    then have same: "length (final_colors st) = length (final_points st)" by simp
    have "signal_statistics (final_points st) (final_colors st) = Inr stats"
      using upd by (simp add: generate_heatmap_written [OF ne st] split: sum.splits)
    from signal_statistics_Inr [OF this] same
    have "red_count stats + yellow_count stats + green_count stats = length (final_points st)
        \<and> total_points stats = length (final_points st)"
      by simp
    then show ?thesis
      by (simp add: generate_heatmap_written [OF ne st])
  qed
  show ?thesis using returns sums by blast
qed

theorem bucket_counts_sum_to_total_witness:
  "scan_towers
       [\<lparr>prim_name = ''Cell_Tower_1'', is_xformable = True, visibility_attr = ''inherited'',
         world_translation = (0, 0, 0)\<rparr>] \<noteq> []
     \<and> (150::real) \<noteq> 5 \<and> (20::int) \<le> 400
     \<and> (\<exists>stats pts.
          snd (generate_heatmap
            \<lparr>MAX_SIGNAL_RANGE = 150, MIN_SIGNAL_RANGE = 5, POINTS_PER_TOWER = 400, POINT_SIZE = 4\<rparr>
            [\<lparr>prim_name = ''Cell_Tower_1'', is_xformable = True, visibility_attr = ''inherited'',
              world_translation = (0, 0, 0)\<rparr>]
            (\<lambda>k. 1 / 2)) = Inr (Updated stats)
          \<and> points_attr (fst (generate_heatmap
            \<lparr>MAX_SIGNAL_RANGE = 150, MIN_SIGNAL_RANGE = 5, POINTS_PER_TOWER = 400, POINT_SIZE = 4\<rparr>
            [\<lparr>prim_name = ''Cell_Tower_1'', is_xformable = True, visibility_attr = ''inherited'',
              world_translation = (0, 0, 0)\<rparr>]
            (\<lambda>k. 1 / 2))) = Some pts
          \<and> red_count stats + yellow_count stats + green_count stats = length pts
          \<and> total_points stats = length pts)"
proof -
  let ?cfg = "\<lparr>MAX_SIGNAL_RANGE = 150, MIN_SIGNAL_RANGE = 5, POINTS_PER_TOWER = 400, POINT_SIZE = 4\<rparr>"
  let ?stage = "[\<lparr>prim_name = ''Cell_Tower_1'', is_xformable = True,
                  visibility_attr = ''inherited'', world_translation = (0, 0, 0)\<rparr>]"
  let ?rnd = "\<lambda>k::nat. 1 / 2 :: real"
  have ne: "scan_towers ?stage \<noteq> []"
    by (simp add: sublist_code(3) Let_def)
  have hyp: "scan_towers ?stage \<noteq> [] \<and> MAX_SIGNAL_RANGE ?cfg \<noteq> MIN_SIGNAL_RANGE ?cfg
      \<and> 20 \<le> POINTS_PER_TOWER ?cfg"
    using ne by simp
  obtain stats where upd: "snd (generate_heatmap ?cfg ?stage ?rnd) = Inr (Updated stats)"
    using bucket_counts_sum_to_total [of ?stage ?cfg ?rnd] hyp by blast
  obtain pts where
    "points_attr (fst (generate_heatmap ?cfg ?stage ?rnd)) = Some pts"
    "red_count stats + yellow_count stats + green_count stats = length pts"
    "total_points stats = length pts"
    using bucket_counts_sum_to_total [of ?stage ?cfg ?rnd stats] upd by blast
  then show ?thesis using ne upd by auto
qed

lemma signal_statistics_ValueError:
  "signal_statistics points colors = Inl ValueError \<longleftrightarrow> colors = []"
proof (cases colors)
  case Nil
  then show ?thesis by (simp add: signal_statistics_def)
next
  case (Cons c cs)
  then show ?thesis
    by (simp add: signal_statistics_def Let_def truediv_def)
qed

text \<open>
  C10. With at least one tower, the pass raises \<^verbatim>\<open>ValueError\<close> (from \<^verbatim>\<open>min\<close> of
  the empty list of strengths) if and only if \<^verbatim>\<open>POINTS_PER_TOWER < 20\<close>, and it has
  then written an empty list of points; with 20 or more points per tower and distinct
  ranges the written list is not empty and the pass returns with statistics; from 100
  points per tower on, the range of the slider, the fault cannot occur.  The statistics
  themselves raise \<^verbatim>\<open>ValueError\<close> exactly on an empty list of colours, and on lists
  of equal length they return exactly when the lists are not empty.
\<close>

theorem statistics_fault_iff_no_points:
  assumes "scan_towers stage \<noteq> []"
  shows "(snd (generate_heatmap cfg stage rnd) = Inl ValueError
            \<longleftrightarrow> POINTS_PER_TOWER cfg < 20)
     \<and> (POINTS_PER_TOWER cfg < 20
          \<longrightarrow> points_attr (fst (generate_heatmap cfg stage rnd)) = Some [])
     \<and> (20 \<le> POINTS_PER_TOWER cfg \<longrightarrow> MAX_SIGNAL_RANGE cfg \<noteq> MIN_SIGNAL_RANGE cfg
          \<longrightarrow> (\<exists>pts stats. points_attr (fst (generate_heatmap cfg stage rnd)) = Some pts
                 \<and> pts \<noteq> []
                 \<and> snd (generate_heatmap cfg stage rnd) = Inr (Updated stats)))
     \<and> (100 \<le> POINTS_PER_TOWER cfg
          \<longrightarrow> snd (generate_heatmap cfg stage rnd) \<noteq> Inl ValueError)
     \<and> (signal_statistics points colors = Inl ValueError \<longleftrightarrow> colors = [])
     \<and> (length points = length colors
          \<longrightarrow> ((\<exists>stats. signal_statistics points colors = Inr stats) \<longleftrightarrow> colors \<noteq> []))"
proof -
  let ?init = "\<lparr>final_points = [], final_colors = [], draws = 0\<rparr>"
  let ?gen = "generate_heatmap cfg stage rnd"
  have few: "snd ?gen = Inl ValueError \<and> points_attr (fst ?gen) = Some []"
    if "POINTS_PER_TOWER cfg < 20"
  proof -
    have "towers_loop rnd cfg (scan_towers stage) ?init = Inr ?init"
      using that by (rule towers_loop_no_points)
    from generate_heatmap_written [OF assms this] show ?thesis
      by (simp add: signal_statistics_empty)
  qed
  have many: "snd ?gen \<noteq> Inl ValueError" if pp: "20 \<le> POINTS_PER_TOWER cfg"
  proof (cases "towers_loop rnd cfg (scan_towers stage) ?init")
    case (Inl e)
    then have "e = ZeroDivisionError" by (rule towers_loop_Inl)
    then show ?thesis
      by (simp add: generate_heatmap_raised [OF assms Inl])
  next
    case (Inr st)
    from towers_loop_Inr [OF Inr] obtain cs where
      "final_colors st = final_colors ?init @ cs"
      "length cs = length (scan_towers stage) * tower_points cfg"
      by blast
    moreover have "0 < tower_points cfg"
      using pp by (simp add: tower_points_def num_rings_def)
    ultimately have "final_colors st \<noteq> []"
      using assms by auto
    then have "signal_statistics (final_points st) (final_colors st) \<noteq> Inl ValueError"
      by (simp add: signal_statistics_ValueError)
    then show ?thesis
      by (auto simp: generate_heatmap_written [OF assms Inr] split: sum.splits)
  qed
  have a: "snd ?gen = Inl ValueError \<longleftrightarrow> POINTS_PER_TOWER cfg < 20"
    using few many by (cases "POINTS_PER_TOWER cfg < 20") auto
  have b: "POINTS_PER_TOWER cfg < 20 \<longrightarrow> points_attr (fst ?gen) = Some []"
    using few by blast
  have c: "\<exists>pts stats. points_attr (fst ?gen) = Some pts \<and> pts \<noteq> []
             \<and> snd ?gen = Inr (Updated stats)"
    if pp: "20 \<le> POINTS_PER_TOWER cfg"
      and ms: "MAX_SIGNAL_RANGE cfg \<noteq> MIN_SIGNAL_RANGE cfg"
  proof -
    obtain pts cols where
      pa: "points_attr (fst ?gen) = Some pts" and
      len: "length pts = length (scan_towers stage) * tower_points cfg"
        "length cols = length (scan_towers stage) * tower_points cfg" and
      res: "snd ?gen = (case signal_statistics pts cols of
                          Inl e \<Rightarrow> Inl e | Inr stats \<Rightarrow> Inr (Updated stats))"
      using generate_heatmap_points [OF assms ms] by blast
    have "0 < tower_points cfg"
      using pp by (simp add: tower_points_def num_rings_def)
    then have "0 < length (scan_towers stage) * tower_points cfg"
      using assms by simp
    then have ne: "pts \<noteq> []" "cols \<noteq> []" using len by auto
    then obtain stats where "signal_statistics pts cols = Inr stats"
      using signal_statistics_returns by blast
    then show ?thesis using pa ne(1) res by simp
  qed
  have d: "100 \<le> POINTS_PER_TOWER cfg \<longrightarrow> snd ?gen \<noteq> Inl ValueError"
    using many by simp
  have e: "signal_statistics points colors = Inl ValueError \<longleftrightarrow> colors = []"
    by (rule signal_statistics_ValueError)
  have f: "(\<exists>stats. signal_statistics points colors = Inr stats) \<longleftrightarrow> colors \<noteq> []"
    if "length points = length colors"
  proof (cases "colors = []")
    case True
    then show ?thesis by (simp add: signal_statistics_empty)
  next
    case False
    then have "points \<noteq> []" using that by auto
    then show ?thesis using False signal_statistics_returns by blast
  qed
  show ?thesis using a b c d e f by blast
qed

theorem statistics_fault_iff_no_points_witness:
  "scan_towers
       [\<lparr>prim_name = ''Cell_Tower_1'', is_xformable = True, visibility_attr = ''inherited'',
         world_translation = (0, 0, 0)\<rparr>] \<noteq> []
     \<and> snd (generate_heatmap
            \<lparr>MAX_SIGNAL_RANGE = 150, MIN_SIGNAL_RANGE = 5, POINTS_PER_TOWER = 19, POINT_SIZE = 4\<rparr>
            [\<lparr>prim_name = ''Cell_Tower_1'', is_xformable = True, visibility_attr = ''inherited'',
              world_translation = (0, 0, 0)\<rparr>]
            (\<lambda>k. 1 / 2)) = Inl ValueError
     \<and> points_attr (fst (generate_heatmap
            \<lparr>MAX_SIGNAL_RANGE = 150, MIN_SIGNAL_RANGE = 5, POINTS_PER_TOWER = 19, POINT_SIZE = 4\<rparr>
            [\<lparr>prim_name = ''Cell_Tower_1'', is_xformable = True, visibility_attr = ''inherited'',
              world_translation = (0, 0, 0)\<rparr>]
            (\<lambda>k. 1 / 2))) = Some []
     \<and> snd (generate_heatmap
            \<lparr>MAX_SIGNAL_RANGE = 150, MIN_SIGNAL_RANGE = 5, POINTS_PER_TOWER = 100, POINT_SIZE = 4\<rparr>
            [\<lparr>prim_name = ''Cell_Tower_1'', is_xformable = True, visibility_attr = ''inherited'',
              world_translation = (0, 0, 0)\<rparr>]
            (\<lambda>k. 1 / 2)) \<noteq> Inl ValueError"
proof -
  let ?stage = "[\<lparr>prim_name = ''Cell_Tower_1'', is_xformable = True,
                  visibility_attr = ''inherited'', world_translation = (0, 0, 0)\<rparr>]"
  have ne: "scan_towers ?stage \<noteq> []"
    by (simp add: sublist_code(3) Let_def)
  show ?thesis
    using ne
      statistics_fault_iff_no_points [OF ne,
        of "\<lparr>MAX_SIGNAL_RANGE = 150, MIN_SIGNAL_RANGE = 5, POINTS_PER_TOWER = 19, POINT_SIZE = 4\<rparr>"
           "\<lambda>k. 1 / 2"]
      statistics_fault_iff_no_points [OF ne,
        of "\<lparr>MAX_SIGNAL_RANGE = 150, MIN_SIGNAL_RANGE = 5, POINTS_PER_TOWER = 100, POINT_SIZE = 4\<rparr>"
           "\<lambda>k. 1 / 2"]
    by simp
qed

end
